theory Spec2Isabelle
  imports Main "HOL-Library.Sublist" "HOL-Library.AList"
begin

section \<open>Common Python notions\<close>

text \<open>
  Strings are byte lists.  \<open>str.lower\<close> and \<open>str.strip\<close> are modelled on
  ASCII, which is all the fixed vocabularies of the program (approval words, command
  prefixes, destructive substrings) contain.
\<close>

datatype py_error = TypeError | IndexError



definition is_space :: "char \<Rightarrow> bool" where
  "is_space c \<longleftrightarrow>
     c \<in> set [CHR 0x09, CHR 0x0A, CHR 0x0B, CHR 0x0C, CHR 0x0D,
               CHR 0x1C, CHR 0x1D, CHR 0x1E, CHR 0x1F, CHR 0x20]"




text \<open>\<open>s.split()\<close>: the maximal runs of characters that are not whitespace.\<close>

fun split_from :: "string \<Rightarrow> string \<Rightarrow> string list" where
  "split_from cur [] = (if cur = [] then [] else [cur])"
| "split_from cur (c # cs) =
     (if is_space c then (if cur = [] then split_from [] cs else cur # split_from [] cs)
      else split_from (cur @ [c]) cs)"

definition split :: "string \<Rightarrow> string list" where
  "split s = split_from [] s"



section \<open>Event logger (agent\_tools/ragis\_logger.py)\<close>

text \<open>
  The values a caller can put into an event: strings, mappings, lists, and everything
  else (\<open>None\<close>, booleans, numbers), which \<open>_mask_pii\<close> sends to its final \<open>else\<close>.
  A mapping is an association list in insertion order, as a Python \<open>dict\<close> iterates.
\<close>

datatype jv =
    JNone
  | JBool bool
  | JInt int
  | JStr string
  | JList "jv list"
  | JDict "(string \<times> jv) list"

primrec mask_pii :: "jv \<Rightarrow> jv" where
  "mask_pii (JStr s) = JStr ''[MASKED]''"
| "mask_pii (JDict kvs) = JDict (map (map_prod id mask_pii) kvs)"
| "mask_pii (JList xs) = JList (map mask_pii xs)"
| "mask_pii JNone = JNone"
| "mask_pii (JBool b) = JNone"
| "mask_pii (JInt i) = JNone"

record event =
  ts :: string
  event_type :: string
  system_version :: string
  tagging_version :: string
  data :: "(string \<times> jv) list"

definition SYSTEM_VERSION :: string where
  "SYSTEM_VERSION = ''1.0.0''"

definition TAGGING_VERSION :: string where
  "TAGGING_VERSION = ''1.0.0''"

text \<open>
  The loop \<open>for field in self.pii_mask_fields: if field in masked: masked[field] = ...\<close>
  of \<open>RagisLogger.log\<close>, on the copy \<open>masked = dict(data)\<close>.
\<close>

fun mask_fields :: "string list \<Rightarrow> (string \<times> jv) list \<Rightarrow> (string \<times> jv) list" where
  "mask_fields [] masked = masked"
| "mask_fields (field # rest) masked =
     mask_fields rest
       (case map_of masked field of
          None \<Rightarrow> masked
        | Some v \<Rightarrow> AList.update field (mask_pii v) masked)"

text \<open>
  \<open>log\<close> builds the record (\<open>log_record\<close>) and \<open>_write\<close> appends its JSON line to
  the log file.  The file is the list of records written so far; \<open>now\<close> is what
  \<open>utc_now_iso\<close> returns during the call.
\<close>

definition log_record :: "string list \<Rightarrow> string \<Rightarrow> string \<Rightarrow> (string \<times> jv) list \<Rightarrow> event" where
  "log_record pii_mask_fields now etype d =
     \<lparr>ts = now, event_type = etype, system_version = SYSTEM_VERSION,
      tagging_version = TAGGING_VERSION, data = mask_fields pii_mask_fields d\<rparr>"

definition log :: "string list \<Rightarrow> string \<Rightarrow> string \<Rightarrow> (string \<times> jv) list \<Rightarrow> event list \<Rightarrow> event list" where
  "log pii_mask_fields now etype d file = file @ [log_record pii_mask_fields now etype d]"

text \<open>
  What "masked" means for a stored value, independently of \<open>mask_pii\<close>: every string
  in it is the placeholder and every other leaf is \<open>None\<close>; and the value has the shape
  of the original (same keys in the same order, same list lengths).
\<close>

fun fully_masked :: "jv \<Rightarrow> bool" where
  "fully_masked (JStr s) = (s = ''[MASKED]'')"
| "fully_masked (JDict kvs) = list_all (\<lambda>kv. fully_masked (snd kv)) kvs"
| "fully_masked (JList xs) = list_all fully_masked xs"
| "fully_masked JNone = True"
| "fully_masked (JBool b) = False"
| "fully_masked (JInt i) = False"

fun same_shape :: "jv \<Rightarrow> jv \<Rightarrow> bool" where
  "same_shape (JDict kvs) (JDict kvs') =
     (map fst kvs = map fst kvs' \<and> list_all2 (\<lambda>kv kv'. same_shape (snd kv) (snd kv')) kvs kvs')"
| "same_shape (JList xs) (JList xs') = list_all2 same_shape xs xs'"
| "same_shape (JDict kvs) _ = False"
| "same_shape (JList xs) _ = False"
| "same_shape _ (JDict kvs) = False"
| "same_shape _ (JList xs) = False"
| "same_shape _ _ = True"

section \<open>Task queue (agent\_tools/task\_manager.py)\<close>

text \<open>
  A task is the dictionary \<open>{"priority", "action", "params"}\<close>; the queue holds the
  tuples \<open>(task["priority"], task)\<close>.  Parameters are a dictionary from strings to
  strings.
\<close>

record task =
  priority :: int
  action :: string
  params :: "(string \<times> string) list"

type_synonym qitem = "int \<times> task"

text \<open>
  Python's \<open>==\<close> on dictionaries: the same number of keys, and every key of the
  left one is a key of the right one with an equal value, whatever the insertion order.
\<close>

definition dict_eq :: "(string \<times> string) list \<Rightarrow> (string \<times> string) list \<Rightarrow> bool" where
  "dict_eq a b \<longleftrightarrow>
     length a = length b \<and> list_all (\<lambda>kv. map_of b (fst kv) = Some (snd kv)) a"

definition task_eq :: "task \<Rightarrow> task \<Rightarrow> bool" where
  "task_eq a b \<longleftrightarrow>
     priority a = priority b \<and> action a = action b \<and> dict_eq (params a) (params b)"

text \<open>
  \<open>x < y\<close> on the queue's tuples, as Python evaluates it: the first components that
  differ decide; when the integers are equal the dictionaries are compared, equal
  dictionaries make the tuples equal (so \<open><\<close> is false), and unequal dictionaries have
  no order: \<open>TypeError\<close>.
\<close>

definition tuple_lt :: "qitem \<Rightarrow> qitem \<Rightarrow> py_error + bool" where
  "tuple_lt x y =
     (if fst x \<noteq> fst y then Inr (fst x < fst y)
      else if task_eq (snd x) (snd y) then Inr False
      else Inl TypeError)"

text \<open>
  \<open>heapq\<close> of the standard library, \<open>_siftdown\<close>, \<open>_siftup\<close>, \<open>heappush\<close> and
  \<open>heappop\<close>, loop by loop.  An exception of the comparison leaves the function at once.
\<close>

function siftdown_loop :: "qitem list \<Rightarrow> nat \<Rightarrow> nat \<Rightarrow> qitem \<Rightarrow> py_error + (qitem list \<times> nat)" where
  "siftdown_loop heap startpos pos newitem =
     (if pos > startpos then
        (case tuple_lt newitem (heap ! ((pos - 1) div 2)) of
           Inl e \<Rightarrow> Inl e
         | Inr b \<Rightarrow>
             if b then siftdown_loop (heap[pos := heap ! ((pos - 1) div 2)]) startpos ((pos - 1) div 2) newitem
             else Inr (heap, pos))
      else Inr (heap, pos))"
  by pat_completeness auto
termination
  by (relation "measure (\<lambda>(heap, startpos, pos, newitem). pos)") auto

definition siftdown :: "qitem list \<Rightarrow> nat \<Rightarrow> nat \<Rightarrow> py_error + qitem list" where
  "siftdown heap startpos pos =
     (if pos < length heap then
        (case siftdown_loop heap startpos pos (heap ! pos) of
           Inl e \<Rightarrow> Inl e
         | Inr (heap', pos') \<Rightarrow> Inr (heap'[pos' := heap ! pos]))
      else Inl IndexError)"

definition heappush :: "qitem list \<Rightarrow> qitem \<Rightarrow> py_error + qitem list" where
  "heappush heap item = siftdown (heap @ [item]) 0 (length (heap @ [item]) - 1)"

function siftup_loop :: "qitem list \<Rightarrow> nat \<Rightarrow> nat \<Rightarrow> py_error + (qitem list \<times> nat)" where
  "siftup_loop heap pos childpos =
     (if childpos < length heap then
        (case (if childpos + 1 < length heap
               then (case tuple_lt (heap ! childpos) (heap ! (childpos + 1)) of
                       Inl e \<Rightarrow> Inl e
                     | Inr b \<Rightarrow> Inr (if \<not> b then childpos + 1 else childpos))
               else Inr childpos) of
           Inl e \<Rightarrow> Inl e
         | Inr c \<Rightarrow> siftup_loop (heap[pos := heap ! c]) c (2 * c + 1))
      else Inr (heap, pos))"
  by pat_completeness auto
termination
  by (relation "measure (\<lambda>(heap, pos, childpos). length heap - childpos)")
     (auto split: if_splits sum.splits)

definition siftup :: "qitem list \<Rightarrow> nat \<Rightarrow> py_error + qitem list" where
  "siftup heap pos =
     (if pos < length heap then
        (case siftup_loop heap pos (2 * pos + 1) of
           Inl e \<Rightarrow> Inl e
         | Inr (heap', pos') \<Rightarrow> siftdown (heap'[pos' := heap ! pos]) pos pos')
      else Inl IndexError)"

definition heappop :: "qitem list \<Rightarrow> py_error + (qitem \<times> qitem list)" where
  "heappop heap =
     (if heap = [] then Inl IndexError
      else
        let lastelt = last heap; heap' = butlast heap in
        if heap' \<noteq> [] then
          (case siftup (heap'[0 := lastelt]) 0 of
             Inl e \<Rightarrow> Inl e
           | Inr heap'' \<Rightarrow> Inr (heap' ! 0, heap''))
        else Inr (lastelt, heap'))"

text \<open>
  The task manager: its queue, and the event file its module logger (no masked
  fields) appends to.  \<open>now\<close> is the clock reading of the logger during the call.
\<close>

record task_manager =
  queue :: "qitem list"
  tm_log :: "event list"

definition TaskManager_init :: "event list \<Rightarrow> task_manager" where
  "TaskManager_init file = \<lparr>queue = [], tm_log = file\<rparr>"

definition params_jv :: "(string \<times> string) list \<Rightarrow> jv" where
  "params_jv p = JDict (map (\<lambda>kv. (fst kv, JStr (snd kv))) p)"

definition task_jv :: "task \<Rightarrow> jv" where
  "task_jv t = JDict [(''priority'', JInt (priority t)), (''action'', JStr (action t)),
                      (''params'', params_jv (params t))]"

definition add_task :: "string \<Rightarrow> task_manager \<Rightarrow> string \<Rightarrow> (string \<times> string) list option \<Rightarrow> int \<Rightarrow> py_error + task_manager" where
  "add_task now self act prms prio =
     (let t = \<lparr>priority = - prio, action = act,
                params = (case prms of None \<Rightarrow> [] | Some p \<Rightarrow> p)\<rparr>
      in case heappush (queue self) (priority t, t) of
           Inl e \<Rightarrow> Inl e
         | Inr q \<Rightarrow>
             Inr \<lparr>queue = q,
                  tm_log = log [] now ''add_task''
                    [(''action'', JStr act), (''priority'', JInt prio),
                     (''params'', (case prms of None \<Rightarrow> JNone | Some p \<Rightarrow> params_jv p))]
                    (tm_log self)\<rparr>)"

definition next_task :: "string \<Rightarrow> task_manager \<Rightarrow> py_error + (task option \<times> task_manager)" where
  "next_task now self =
     (if queue self = [] then Inr (None, self)
      else case heappop (queue self) of
             Inl e \<Rightarrow> Inl e
           | Inr (item, q) \<Rightarrow>
               Inr (Some (snd item),
                    \<lparr>queue = q,
                     tm_log = log [] now ''next_task'' [(''task'', task_jv (snd item))] (tm_log self)\<rparr>))"

definition has_tasks :: "task_manager \<Rightarrow> bool" where
  "has_tasks self = (length (queue self) > 0)"

text \<open>Drivers: a sequence of \<open>add_task\<close> calls, and \<open>n\<close> calls of \<open>next_task\<close>.\<close>

fun add_tasks :: "string \<Rightarrow> task_manager \<Rightarrow> (string \<times> (string \<times> string) list option \<times> int) list \<Rightarrow> py_error + task_manager" where
  "add_tasks now self [] = Inr self"
| "add_tasks now self ((act, prms, prio) # rest) =
     (case add_task now self act prms prio of
        Inl e \<Rightarrow> Inl e
      | Inr self' \<Rightarrow> add_tasks now self' rest)"

fun pop_tasks :: "string \<Rightarrow> task_manager \<Rightarrow> nat \<Rightarrow> py_error + task option list" where
  "pop_tasks now self 0 = Inr []"
| "pop_tasks now self (Suc n) =
     (case next_task now self of
        Inl e \<Rightarrow> Inl e
      | Inr (t, self') \<Rightarrow>
          (case pop_tasks now self' n of
             Inl e \<Rightarrow> Inl e
           | Inr popped \<Rightarrow> Inr (t # popped)))"

section \<open>Secret vault (secure\_vault.py)\<close>

text \<open>
  Cryptography is symbolic.  The key that \<open>get_fernet\<close> derives with PBKDF2 from the PIN
  and the salt is the pair of both; a Fernet token records the key and the plaintext it
  was made from, and decrypts under that key only (any other key, and any bytes that are
  not a token, give \<open>InvalidToken\<close>).  The plaintext is the JSON text of the vault;
  \<open>json.loads\<close> after \<open>json.dumps\<close> is the identity on vaults, so a token carries the
  vault itself.  Reads and writes of the two files succeed; console output is left out.
\<close>

type_synonym salt = string

datatype key = PBKDF2 string salt

record archive_item =
  item_value :: string
  item_timestamp :: string

text \<open>A vault entry is a dictionary; a key that is absent is \<open>None\<close> here.\<close>

record entry =
  current :: "string option"
  last_update :: "string option"
  archive :: "archive_item list option"
  deleted :: "bool option"
  deleted_date :: "string option"

type_synonym secrets = "(string \<times> entry) list"

datatype blob = Fernet_token key secrets | Other_bytes string

fun fernet_decrypt :: "key \<Rightarrow> blob \<Rightarrow> secrets option" where
  "fernet_decrypt k (Fernet_token k' s) = (if k = k' then Some s else None)"
| "fernet_decrypt k (Other_bytes b) = None"

definition fernet_encrypt :: "key \<Rightarrow> secrets \<Rightarrow> blob" where
  "fernet_encrypt k s = Fernet_token k s"

text \<open>
  The files \<open>secrets.salt\<close> and \<open>secrets.vault\<close> and the event file.  The environment
  of a call: the logger's clock, \<open>datetime.now().isoformat()\<close>, and the bytes
  \<open>os.urandom(16)\<close> would return.
\<close>

record vault_world =
  salt_file :: "salt option"
  vault_file :: "blob option"
  vault_log :: "event list"

record os_env =
  utc_now_iso :: string
  now_isoformat :: string
  urandom16 :: salt

definition vault_logger :: "os_env \<Rightarrow> string \<Rightarrow> (string \<times> jv) list \<Rightarrow> vault_world \<Rightarrow> vault_world" where
  "vault_logger E etype d w =
     w\<lparr>vault_log := log [''name'', ''value'', ''pin''] (utc_now_iso E) etype d (vault_log w)\<rparr>"

definition get_salt :: "os_env \<Rightarrow> vault_world \<Rightarrow> salt \<times> vault_world" where
  "get_salt E w =
     (case salt_file w of
        Some s \<Rightarrow> (s, w)
      | None \<Rightarrow> (urandom16 E, w\<lparr>salt_file := Some (urandom16 E)\<rparr>))"

definition get_fernet :: "os_env \<Rightarrow> string \<Rightarrow> vault_world \<Rightarrow> key \<times> vault_world" where
  "get_fernet E pin w = (case get_salt E w of (s, w') \<Rightarrow> (PBKDF2 pin s, w'))"

text \<open>The result \<open>None\<close> is the return value \<open>None\<close> of the source: decryption failed.\<close>

definition load_vault :: "os_env \<Rightarrow> string \<Rightarrow> vault_world \<Rightarrow> secrets option \<times> vault_world" where
  "load_vault E pin w0 =
     (case get_fernet E pin w0 of (f, w) \<Rightarrow>
        (case vault_file w of
           None \<Rightarrow> (Some [], vault_logger E ''vault_load_empty'' [(''pin'', JStr pin)] w)
         | Some enc \<Rightarrow>
             (case fernet_decrypt f enc of
                Some dec \<Rightarrow>
                  (Some dec,
                   vault_logger E ''vault_load'' [(''pin'', JStr pin), (''status'', JStr ''success'')] w)
              | None \<Rightarrow>
                  (None,
                   vault_logger E ''vault_load_failed''
                     [(''pin'', JStr pin), (''error'', JStr ''InvalidToken'')] w))))"

definition save_vault :: "os_env \<Rightarrow> secrets \<Rightarrow> string \<Rightarrow> vault_world \<Rightarrow> vault_world" where
  "save_vault E secrets pin w0 =
     (case get_fernet E pin w0 of (f, w) \<Rightarrow>
        vault_logger E ''vault_save''
          [(''pin'', JStr pin), (''status'', JStr ''success''),
           (''keys'', JList (map (\<lambda>kv. JStr (fst kv)) secrets))]
          (w\<lparr>vault_file := Some (fernet_encrypt f secrets)\<rparr>))"

text \<open>\<open>load_vault(pin) or {}\<close>: the failure value and the empty vault both give \<open>{}\<close>.\<close>

definition or_empty :: "secrets option \<Rightarrow> secrets" where
  "or_empty loaded = (case loaded of None \<Rightarrow> [] | Some s \<Rightarrow> s)"

definition empty_entry :: entry where
  "empty_entry = \<lparr>current = None, last_update = None, archive = None, deleted = None,
                   deleted_date = None\<rparr>"

definition set_secret :: "os_env \<Rightarrow> string \<Rightarrow> string \<Rightarrow> string \<Rightarrow> vault_world \<Rightarrow> vault_world" where
  "set_secret E name val pin w0 =
     (if name = [] then
        vault_logger E ''set_secret_failed''
          [(''name'', JStr name), (''pin'', JStr pin), (''error'', JStr ''invalid name'')] w0
      else if val = [] then
        vault_logger E ''set_secret_failed''
          [(''name'', JStr name), (''pin'', JStr pin), (''error'', JStr ''invalid value'')] w0
      else
        (case load_vault E pin w0 of (loaded, w) \<Rightarrow>
           let secrets = or_empty loaded;
               timestamp = now_isoformat E;
               e1 = (case map_of secrets name of
                       None \<Rightarrow> empty_entry\<lparr>archive := Some []\<rparr>
                     | Some e \<Rightarrow>
                         (case current e of
                            None \<Rightarrow> empty_entry\<lparr>archive := Some []\<rparr>
                          | Some cur \<Rightarrow>
                              e\<lparr>archive := Some
                                  (\<lparr>item_value = cur,
                                    item_timestamp =
                                      (case last_update e of None \<Rightarrow> timestamp | Some t \<Rightarrow> t)\<rparr>
                                   # (case archive e of None \<Rightarrow> [] | Some a \<Rightarrow> a))\<rparr>));
               e2 = e1\<lparr>current := Some val, last_update := Some timestamp\<rparr>
           in vault_logger E ''set_secret''
                [(''name'', JStr name), (''pin'', JStr pin), (''status'', JStr ''set''),
                 (''timestamp'', JStr timestamp)]
                (save_vault E (AList.update name e2 secrets) pin w)))"

text \<open>Python's \<open>xs[i]\<close> and \<open>xs.pop(i)\<close>: a negative index counts from the end.\<close>

definition list_index :: "'a list \<Rightarrow> int \<Rightarrow> py_error + 'a" where
  "list_index xs i =
     (let n = int (length xs); j = (if i < 0 then i + n else i)
      in if 0 \<le> j \<and> j < n then Inr (xs ! nat j) else Inl IndexError)"

definition list_pop :: "'a list \<Rightarrow> int \<Rightarrow> py_error + ('a \<times> 'a list)" where
  "list_pop xs i =
     (let n = int (length xs); j = (if i < 0 then i + n else i)
      in if 0 \<le> j \<and> j < n then Inr (xs ! nat j, take (nat j) xs @ drop (Suc (nat j)) xs)
         else Inl IndexError)"

definition get_secret :: "os_env \<Rightarrow> string \<Rightarrow> string \<Rightarrow> bool \<Rightarrow> int \<Rightarrow> vault_world \<Rightarrow> py_error + (string option \<times> vault_world)" where
  "get_secret E name pin archived version w0 =
     (case load_vault E pin w0 of (loaded, w) \<Rightarrow>
        (case map_of (or_empty loaded) name of
           None \<Rightarrow>
             Inr (None, vault_logger E ''get_secret_failed''
                    [(''name'', JStr name), (''pin'', JStr pin), (''error'', JStr ''not found'')] w)
         | Some e \<Rightarrow>
             if e = empty_entry then
               Inr (None, vault_logger E ''get_secret_failed''
                      [(''name'', JStr name), (''pin'', JStr pin), (''error'', JStr ''not found'')] w)
             else if \<not> archived then
               Inr (current e, vault_logger E ''get_secret''
                      [(''name'', JStr name), (''pin'', JStr pin), (''archived'', JBool archived),
                       (''status'', JStr ''found'')] w)
             else
               (case archive e of
                  Some a \<Rightarrow>
                    if int (length a) > version then
                      (case list_index a version of
                         Inl err \<Rightarrow> Inl err
                       | Inr it \<Rightarrow>
                           Inr (Some (item_value it), vault_logger E ''get_secret_archive''
                                  [(''name'', JStr name), (''pin'', JStr pin),
                                   (''version'', JInt version), (''status'', JStr ''found'')] w))
                    else
                      Inr (None, vault_logger E ''get_secret_archive_failed''
                             [(''name'', JStr name), (''pin'', JStr pin),
                              (''version'', JInt version), (''error'', JStr ''not found'')] w)
                | None \<Rightarrow>
                    Inr (None, vault_logger E ''get_secret_archive_failed''
                           [(''name'', JStr name), (''pin'', JStr pin),
                            (''version'', JInt version), (''error'', JStr ''not found'')] w))))"

definition restore_failed :: "os_env \<Rightarrow> string \<Rightarrow> string \<Rightarrow> int \<Rightarrow> vault_world \<Rightarrow> vault_world" where
  "restore_failed E name pin version w =
     vault_logger E ''restore_secret_failed''
       [(''name'', JStr name), (''pin'', JStr pin), (''version'', JInt version),
        (''error'', JStr ''invalid archive'')] w"

definition restore_secret :: "os_env \<Rightarrow> string \<Rightarrow> string \<Rightarrow> int \<Rightarrow> vault_world \<Rightarrow> py_error + (bool \<times> vault_world)" where
  "restore_secret E name pin version w0 =
     (case load_vault E pin w0 of (loaded, w) \<Rightarrow>
        let secrets = or_empty loaded in
        (case map_of secrets name of
           None \<Rightarrow> Inr (False, restore_failed E name pin version w)
         | Some e \<Rightarrow>
             (case archive e of
                None \<Rightarrow> Inr (False, restore_failed E name pin version w)
              | Some a \<Rightarrow>
                  if int (length a) \<le> version then Inr (False, restore_failed E name pin version w)
                  else
                    let timestamp = now_isoformat E in
                    (case list_pop a version of
                       Inl err \<Rightarrow> Inl err
                     | Inr (archive_entry, a') \<Rightarrow>
                         let a'' = (case current e of
                                      None \<Rightarrow> a'
                                    | Some cur \<Rightarrow>
                                        \<lparr>item_value = cur,
                                         item_timestamp =
                                           (case last_update e of None \<Rightarrow> timestamp | Some t \<Rightarrow> t)\<rparr>
                                        # a');
                             e' = e\<lparr>archive := Some a'', current := Some (item_value archive_entry),
                                    last_update := Some timestamp\<rparr>
                         in Inr (True,
                                 vault_logger E ''restore_secret''
                                   [(''name'', JStr name), (''pin'', JStr pin),
                                    (''version'', JInt version), (''status'', JStr ''restored''),
                                    (''timestamp'', JStr timestamp)]
                                   (save_vault E (AList.update name e' secrets) pin w))))))"

text \<open>
  The two entries \<open>set_secret\<close> can store under a name: a first value with an empty
  archive, or a new value over an entry \<open>e\<close> whose current value \<open>cur\<close> moves to the
  front of the archive.
\<close>

definition new_entry :: "string \<Rightarrow> string \<Rightarrow> entry" where
  "new_entry val t =
     \<lparr>current = Some val, last_update = Some t, archive = Some [], deleted = None,
      deleted_date = None\<rparr>"

definition archived_entry :: "entry \<Rightarrow> string \<Rightarrow> string \<Rightarrow> string \<Rightarrow> entry" where
  "archived_entry e cur val t =
     e\<lparr>archive := Some (\<lparr>item_value = cur,
                          item_timestamp = (case last_update e of None \<Rightarrow> t | Some t' \<Rightarrow> t')\<rparr>
                         # (case archive e of None \<Rightarrow> [] | Some a \<Rightarrow> a)),
       current := Some val, last_update := Some t\<rparr>"

section \<open>Approval-gated handlers (agent\_tools)\<close>

text \<open>
  The session state is the dictionary the handlers share: one slot per kind of pending
  action (an absent key is \<open>None\<close>), and the trust flag.  Each slot has the type of the
  values the propose step of its kind stores.  The world is the file system (path to
  text, and the modes set by \<open>chmod\<close>), the commands handed to \<open>subprocess.run\<close> so far,
  each with its working directory, the HTTP requests sent so far, and the event file.
  What a launched command or a request does to the machine is not modelled: its trace
  entry stands for it.
\<close>

datatype invocation = Argv "string list" | Shell string

datatype exn = FileNotFoundError string | Exception string


datatype proc_result = Completed string string | Raised exn

datatype http_result = Response int string | Http_raised exn




record world =
  files :: "string \<rightharpoonup> string"
  modes :: "string \<rightharpoonup> nat"
  executed :: "(invocation \<times> string option) list"
  requested :: "(string \<times> string \<times> jv option) list"
  events :: "event list"

text \<open>
  The environment of a handler call, beyond the clocks: \<open>get_timestamp()\<close>, the home
  directory \<open>os.path.expanduser("~")\<close>, the path function
  \<open>os.path.abspath(os.path.expanduser(p))\<close>, the name \<open>NamedTemporaryFile\<close> picks,
  \<open>difflib.unified_diff\<close> (file names and contents to text), the outcome of the
  \<open>n\<close>-th \<open>subprocess.run\<close> and of the \<open>n\<close>-th HTTP request (completed, or an exception),
  the exception message, if any, of \<open>open(path, "w")\<close>, and Python's \<open>int(s)\<close> (the
  number, or the message of its \<open>ValueError\<close>).
\<close>

record handler_env = os_env +
  get_timestamp :: string
  user_home :: string
  abspath :: "string \<Rightarrow> string"
  tmp_name :: string
  unified_diff :: "string \<Rightarrow> string \<Rightarrow> string \<Rightarrow> string \<Rightarrow> string"
  subprocess_run :: "nat \<Rightarrow> invocation \<Rightarrow> string option \<Rightarrow> proc_result"
  requests :: "nat \<Rightarrow> string \<Rightarrow> string \<Rightarrow> jv option \<Rightarrow> http_result"
  open_w_error :: "string \<Rightarrow> string option"
  python_int :: "string \<Rightarrow> string + int"
















text \<open>
  Every module has its own logger object on the one event file; they differ in the
  fields they mask.
\<close>

definition logger :: "string list \<Rightarrow> handler_env \<Rightarrow> string \<Rightarrow> (string \<times> jv) list \<Rightarrow> world \<Rightarrow> world" where
  "logger pii_mask_fields E etype d w =
     w\<lparr>events := log pii_mask_fields (utc_now_iso E) etype d (events w)\<rparr>"

















subsection \<open>Shell commands, pip and npm (shell.py)\<close>








subsection \<open>File edit and create (files.py)\<close>







subsection \<open>Resolve steps of the other handlers\<close>















subsection \<open>The table of resolve steps\<close>








subsection \<open>Propose, then resolve\<close>



section \<open>Concrete inputs\<close>


definition os_env0 :: os_env where
  "os_env0 = \<lparr>utc_now_iso = ''2025-01-01T12:00:00+00:00'', now_isoformat = ''2025-01-01T12:00:00'',
              urandom16 = ''0123456789abcdef''\<rparr>"



definition vault0 :: vault_world where
  "vault0 = \<lparr>salt_file = None, vault_file = None, vault_log = []\<rparr>"

definition vault1 :: vault_world where
  "vault1 = save_vault os_env0 [(''github'', new_entry ''token'' ''2024-12-31T08:00:00'')] ''12345'' vault0"

section \<open>Event logger: masking\<close>

lemma mask_pii_idem: "mask_pii (mask_pii v) = mask_pii v"
  by (induction v)
     (auto simp: list.map_comp comp_def prod.map_comp intro!: list.map_cong0 prod.map_cong0)

lemma fully_masked_mask_pii: "fully_masked (mask_pii v)"
  by (induction v) (auto simp: list_all_iff)

lemma same_shape_mask_pii: "same_shape v (mask_pii v)"
  by (induction v) (auto simp: list_all2_map2 comp_def intro!: list.rel_refl_strong)

text \<open>A field that is listed twice is masked twice, which changes nothing more.\<close>

lemma map_of_mask_fields:
  "map_of (mask_fields flds d) k =
     (if k \<in> set flds then map_option mask_pii (map_of d k) else map_of d k)"
  by (induction flds arbitrary: d) (auto simp: update_conv' mask_pii_idem split: option.splits)

lemma keys_update_present: "map_of d f = Some v \<Longrightarrow> map fst (AList.update f v' d) = map fst d"
  by (induction d) (auto split: if_splits)

lemma keys_mask_fields: "map fst (mask_fields flds d) = map fst d"
  by (induction flds arbitrary: d) (auto simp: keys_update_present split: option.splits)

text \<open>
  C9.  An event logged through a logger with mask fields \<open>flds\<close> is appended as one
  record.  In its data, a configured field whose value is a string holds the fixed
  placeholder; any configured field that is present holds the recursively masked value,
  in which every string is the placeholder and every other leaf is \<open>None\<close>, with the keys
  and list lengths of the original; a field that is not configured is stored unchanged;
  and the keys of the event are kept in their order.
\<close>

theorem log_masks_configured_fields:
  "log flds now etype d file = file @ [log_record flds now etype d] \<and>
   map fst (data (log_record flds now etype d)) = map fst d \<and>
   (\<forall>f s. f \<in> set flds \<and> map_of d f = Some (JStr s) \<longrightarrow>
      map_of (data (log_record flds now etype d)) f = Some (JStr ''[MASKED]'')) \<and>
   (\<forall>f v. f \<in> set flds \<and> map_of d f = Some v \<longrightarrow>
      map_of (data (log_record flds now etype d)) f = Some (mask_pii v) \<and>
      fully_masked (mask_pii v) \<and> same_shape v (mask_pii v)) \<and>
   (\<forall>f. f \<notin> set flds \<longrightarrow> map_of (data (log_record flds now etype d)) f = map_of d f)"
  by (simp add: log_def log_record_def map_of_mask_fields keys_mask_fields
      fully_masked_mask_pii same_shape_mask_pii)

theorem log_masks_configured_fields_witness:
  "''cmd'' \<in> set [''cmd'', ''cwd''] \<and>
   map_of [(''cmd'', JStr ''ls -la''), (''meta'', JList [JStr ''x'', JInt 3]), (''n'', JInt 7)]
     ''cmd'' = Some (JStr ''ls -la'') \<and>
   ''n'' \<notin> set [''cmd'', ''cwd''] \<and>
   map_of (data (log_record [''cmd'', ''cwd''] ''t'' ''run_shell''
        [(''cmd'', JStr ''ls -la''), (''meta'', JList [JStr ''x'', JInt 3]), (''n'', JInt 7)]))
     ''cmd'' = Some (JStr ''[MASKED]'') \<and>
   map_of (data (log_record [''cmd'', ''cwd''] ''t'' ''run_shell''
        [(''cmd'', JStr ''ls -la''), (''meta'', JList [JStr ''x'', JInt 3]), (''n'', JInt 7)]))
     ''n'' = Some (JInt 7)"
  using log_masks_configured_fields [of "[''cmd'', ''cwd'']" "''t''" "''run_shell''"
      "[(''cmd'', JStr ''ls -la''), (''meta'', JList [JStr ''x'', JInt 3]), (''n'', JInt 7)]" "[]"]
  by simp

section \<open>Task queue: order of service\<close>

text \<open>
  C2.  Tasks added with the priorities 5, 1 and 3, in that order, come out of three
  \<open>next_task\<close> calls as 5, 3, 1: the task with the highest priority number first.  (The
  key under which \<open>add_task\<close> pushes a task, and the \<open>"priority"\<close> entry of the task it
  stores, is the negated number.)
\<close>

theorem next_task_pops_highest_number_first:
  "(case add_tasks now (TaskManager_init file)
           [(''A'', None, 5), (''B'', None, 1), (''C'', None, 3)] of
      Inl e \<Rightarrow> Inl e
    | Inr m \<Rightarrow> map_sum id (map (map_option (\<lambda>t. (action t, priority t)))) (pop_tasks now' m 3))
   = Inr [Some (''A'', - 5), Some (''C'', - 3), Some (''B'', - 1)]"
  by (simp add: add_task_def TaskManager_init_def heappush_def siftdown_def tuple_lt_def
      heappop_def siftup_def numeral_3_eq_3 next_task_def)

text \<open>
  C10.  \<open>add_task\<close> is not total.  After one task has been added to an empty queue, adding
  a second task with the same priority and a different action, or different parameters,
  raises \<open>TypeError\<close>: the comparison of the heap falls through the equal integers to
  the two dictionaries.
\<close>

theorem add_task_equal_priority_raises:
  "\<exists>m. add_task now (TaskManager_init file) a1 p1 prio = Inr m \<and>
     (\<forall>a2 p2. a2 \<noteq> a1 \<or>
               \<not> dict_eq (case p2 of None \<Rightarrow> [] | Some p \<Rightarrow> p) (case p1 of None \<Rightarrow> [] | Some p \<Rightarrow> p)
        \<longrightarrow> add_task now' m a2 p2 prio = Inl TypeError)"
  by (auto simp add: add_task_def TaskManager_init_def heappush_def siftdown_def tuple_lt_def
      task_eq_def)

theorem add_task_equal_priority_raises_witness:
  "''B'' \<noteq> ''A'' \<and>
   (case add_task ''t'' (TaskManager_init []) ''A'' None 5 of
      Inl e \<Rightarrow> Inl e
    | Inr m \<Rightarrow> add_task ''t'' m ''B'' None 5) = Inl TypeError"
  using add_task_equal_priority_raises [of "''t''" "[]" "''A''" None 5 "''t''"]
  by auto

section \<open>Secret vault\<close>

text \<open>What a call leaves in the two files, and what a load returns.\<close>

lemma fst_load_vault:
  "fst (load_vault E pin w) =
     (case vault_file w of
        None \<Rightarrow> Some []
      | Some enc \<Rightarrow>
          fernet_decrypt (PBKDF2 pin (case salt_file w of None \<Rightarrow> urandom16 E | Some s \<Rightarrow> s)) enc)"
  by (auto simp: load_vault_def get_fernet_def get_salt_def vault_logger_def
      split: option.splits prod.splits)

lemma files_load_vault:
  "salt_file (snd (load_vault E pin w)) =
     Some (case salt_file w of None \<Rightarrow> urandom16 E | Some s \<Rightarrow> s)"
  "vault_file (snd (load_vault E pin w)) = vault_file w"
  by (auto simp: load_vault_def get_fernet_def get_salt_def vault_logger_def
      split: option.splits prod.splits)

lemma files_save_vault:
  "salt_file (save_vault E secrets pin w) =
     Some (case salt_file w of None \<Rightarrow> urandom16 E | Some s \<Rightarrow> s)"
  "vault_file (save_vault E secrets pin w) =
     Some (Fernet_token (PBKDF2 pin (case salt_file w of None \<Rightarrow> urandom16 E | Some s \<Rightarrow> s))
            secrets)"
  by (auto simp: save_vault_def get_fernet_def get_salt_def vault_logger_def fernet_encrypt_def
      split: option.splits prod.splits)

lemma files_set_secret:
  assumes "name \<noteq> []" "val \<noteq> []"
  shows "salt_file (set_secret E name val pin w) =
           Some (case salt_file w of None \<Rightarrow> urandom16 E | Some s \<Rightarrow> s)"
    and "vault_file (set_secret E name val pin w) =
       Some (Fernet_token (PBKDF2 pin (case salt_file w of None \<Rightarrow> urandom16 E | Some s \<Rightarrow> s))
         (let secrets = or_empty (fst (load_vault E pin w)) in
          AList.update name
            (case map_of secrets name of
               None \<Rightarrow> new_entry val (now_isoformat E)
             | Some e \<Rightarrow>
                 (case current e of
                    None \<Rightarrow> new_entry val (now_isoformat E)
                  | Some cur \<Rightarrow> archived_entry e cur val (now_isoformat E)))
            secrets))"
  using assms
  by (auto simp: set_secret_def Let_def vault_logger_def files_save_vault files_load_vault
      new_entry_def archived_entry_def empty_entry_def split_beta split: option.splits)

lemma archived_entry_not_empty: "archived_entry e cur val t \<noteq> empty_entry"
proof
  assume "archived_entry e cur val t = empty_entry"
  then have "current (archived_entry e cur val t) = current empty_entry"
    by simp
  then show False
    by (simp add: archived_entry_def empty_entry_def)
qed

text \<open>
  C6.  Saving a vault and loading it with the same PIN gives the vault back; loading it
  with any other PIN gives the failure value \<open>None\<close>, which is not the empty vault; and
  when there is no vault file the load gives the empty vault.
\<close>

theorem vault_round_trip:
  "fst (load_vault E' pin (save_vault E secrets pin w)) = Some secrets \<and>
   (\<forall>wrong_pin. wrong_pin \<noteq> pin \<longrightarrow>
      fst (load_vault E' wrong_pin (save_vault E secrets pin w)) = None) \<and>
   (vault_file w = None \<longrightarrow> fst (load_vault E pin w) = Some [])"
  by (simp add: fst_load_vault files_save_vault)

theorem vault_round_trip_witness:
  "''54321'' \<noteq> ''12345'' \<and> vault_file vault0 = None \<and>
   fst (load_vault os_env0 ''12345''
          (save_vault os_env0 [(''github'', new_entry ''token'' ''t'')] ''12345'' vault0))
     = Some [(''github'', new_entry ''token'' ''t'')] \<and>
   fst (load_vault os_env0 ''54321''
          (save_vault os_env0 [(''github'', new_entry ''token'' ''t'')] ''12345'' vault0)) = None \<and>
   fst (load_vault os_env0 ''12345'' vault0) = Some []"
  using vault_round_trip [of os_env0 "''12345''" os_env0
      "[(''github'', new_entry ''token'' ''t'')]" vault0]
  by (simp add: vault0_def)

text \<open>
  C3.  When the vault file exists and does not decrypt under the PIN, \<open>set_secret\<close> with a
  valid name and value rewrites the file: the new file holds the new entry alone,
  encrypted under that PIN, and no other PIN opens it any more.
\<close>

theorem set_secret_failed_load_overwrites:
  assumes "vault_file w = Some b" and "fst (load_vault E pin w) = None"
    and "name \<noteq> []" and "val \<noteq> []"
  shows "vault_file (set_secret E name val pin w) \<noteq> vault_file w \<and>
         fst (load_vault E' pin (set_secret E name val pin w))
           = Some [(name, new_entry val (now_isoformat E))] \<and>
         (\<forall>other_pin. other_pin \<noteq> pin \<longrightarrow>
            fst (load_vault E' other_pin (set_secret E name val pin w)) = None)"
  using assms
  by (auto simp: fst_load_vault files_set_secret or_empty_def)

text \<open>
  C4.  After \<open>set_secret(A, v1)\<close> and \<open>set_secret(A, v2)\<close>, the current value is \<open>v2\<close> and
  the archived version 0 is \<open>v1\<close>.  In general, when the vault loads and the entry has a
  current value \<open>c\<close>, the entry stored by \<open>set_secret\<close> has the new value as current and
  its archive is the old archive with \<open>c\<close> put in front; the other entries are untouched.
\<close>

theorem set_secret_archives_previous:
  assumes "name \<noteq> []" and "v1 \<noteq> []" and "v2 \<noteq> []"
  shows "map_sum id fst (get_secret E3 name pin False 0
            (set_secret E2 name v2 pin (set_secret E1 name v1 pin w))) = Inr (Some v2) \<and>
         map_sum id fst (get_secret E3 name pin True 0
            (set_secret E2 name v2 pin (set_secret E1 name v1 pin w))) = Inr (Some v1) \<and>
         (\<forall>secrets e c.
            fst (load_vault E1 pin w) = Some secrets \<and> map_of secrets name = Some e \<and>
            current e = Some c \<longrightarrow>
            (\<exists>secrets' e' t.
               fst (load_vault E3 pin (set_secret E1 name v1 pin w)) = Some secrets' \<and>
               map_of secrets' name = Some e' \<and> current e' = Some v1 \<and>
               archive e' = Some (\<lparr>item_value = c, item_timestamp = t\<rparr>
                                  # (case archive e of None \<Rightarrow> [] | Some a \<Rightarrow> a)) \<and>
               (\<forall>other. other \<noteq> name \<longrightarrow> map_of secrets' other = map_of secrets other)))"
proof (intro conjI allI impI)
  let ?w1 = "set_secret E1 name v1 pin w"
  let ?w2 = "set_secret E2 name v2 pin ?w1"
  obtain s1 e1 where l1: "fst (load_vault E2 pin ?w1) = Some s1" "map_of s1 name = Some e1"
      "current e1 = Some v1"
    using assms
    by (auto simp: fst_load_vault files_set_secret Let_def update_conv' new_entry_def
        archived_entry_def split: option.splits)
  have l2: "fst (load_vault E3 pin ?w2)
              = Some (AList.update name (archived_entry e1 v1 v2 (now_isoformat E2)) s1)"
    using assms l1 by (simp add: fst_load_vault files_set_secret [where w = ?w1] or_empty_def)
  show "map_sum id fst (get_secret E3 name pin False 0 ?w2) = Inr (Some v2)"
    using l2 archived_entry_not_empty [of e1 v1 v2 "now_isoformat E2"]
    by (simp add: get_secret_def split_beta or_empty_def update_conv')
       (simp add: archived_entry_def)
  show "map_sum id fst (get_secret E3 name pin True 0 ?w2) = Inr (Some v1)"
    using l2 archived_entry_not_empty [of e1 v1 v2 "now_isoformat E2"]
    by (simp add: get_secret_def split_beta or_empty_def update_conv')
       (simp add: archived_entry_def list_index_def)
next
  fix secrets e c
  assume "fst (load_vault E1 pin w) = Some secrets \<and> map_of secrets name = Some e \<and>
          current e = Some c"
  then show "\<exists>secrets' e' t.
               fst (load_vault E3 pin (set_secret E1 name v1 pin w)) = Some secrets' \<and>
               map_of secrets' name = Some e' \<and> current e' = Some v1 \<and>
               archive e' = Some (\<lparr>item_value = c, item_timestamp = t\<rparr>
                                  # (case archive e of None \<Rightarrow> [] | Some a \<Rightarrow> a)) \<and>
               (\<forall>other. other \<noteq> name \<longrightarrow> map_of secrets' other = map_of secrets other)"
    using assms
    by (auto simp: fst_load_vault files_set_secret or_empty_def update_conv' archived_entry_def)
qed

lemma vault1_files:
  "vault_file vault1 = Some (Fernet_token (PBKDF2 ''12345'' ''0123456789abcdef'')
                               [(''github'', new_entry ''token'' ''2024-12-31T08:00:00'')])"
  "salt_file vault1 = Some ''0123456789abcdef''"
  by (simp_all add: vault1_def files_save_vault vault0_def os_env0_def)

theorem set_secret_failed_load_overwrites_witness:
  "vault_file vault1 = Some (Fernet_token (PBKDF2 ''12345'' ''0123456789abcdef'')
                               [(''github'', new_entry ''token'' ''2024-12-31T08:00:00'')]) \<and>
   fst (load_vault os_env0 ''99999'' vault1) = None \<and> ''aws'' \<noteq> [] \<and> ''key'' \<noteq> [] \<and>
   vault_file (set_secret os_env0 ''aws'' ''key'' ''99999'' vault1) \<noteq> vault_file vault1 \<and>
   fst (load_vault os_env0 ''99999'' (set_secret os_env0 ''aws'' ''key'' ''99999'' vault1))
     = Some [(''aws'', new_entry ''key'' (now_isoformat os_env0))] \<and>
   fst (load_vault os_env0 ''12345'' (set_secret os_env0 ''aws'' ''key'' ''99999'' vault1)) = None"
proof -
  have h1: "vault_file vault1 = Some (Fernet_token (PBKDF2 ''12345'' ''0123456789abcdef'')
                               [(''github'', new_entry ''token'' ''2024-12-31T08:00:00'')])"
    by (rule vault1_files)
  have h2: "fst (load_vault os_env0 ''99999'' vault1) = None"
    by (simp add: fst_load_vault vault1_files)
  have h3: "''aws'' \<noteq> []" and h4: "''key'' \<noteq> []" by simp_all
  have h5: "''12345'' \<noteq> ''99999''" by simp
  from set_secret_failed_load_overwrites [OF h1 h2 h3 h4, of os_env0] h1 h2 h5
  show ?thesis by simp
qed

theorem set_secret_archives_previous_witness:
  "''A'' \<noteq> [] \<and> ''v1'' \<noteq> [] \<and> ''v2'' \<noteq> [] \<and>
   map_sum id fst (get_secret os_env0 ''A'' ''12345'' False 0
      (set_secret os_env0 ''A'' ''v2'' ''12345'' (set_secret os_env0 ''A'' ''v1'' ''12345'' vault1)))
     = Inr (Some ''v2'') \<and>
   map_sum id fst (get_secret os_env0 ''A'' ''12345'' True 0
      (set_secret os_env0 ''A'' ''v2'' ''12345'' (set_secret os_env0 ''A'' ''v1'' ''12345'' vault1)))
     = Inr (Some ''v1'') \<and>
   fst (load_vault os_env0 ''12345'' vault1)
     = Some [(''github'', new_entry ''token'' ''2024-12-31T08:00:00'')] \<and>
   map_of [(''github'', new_entry ''token'' ''2024-12-31T08:00:00'')] ''github''
     = Some (new_entry ''token'' ''2024-12-31T08:00:00'') \<and>
   current (new_entry ''token'' ''2024-12-31T08:00:00'') = Some ''token'' \<and>
   (\<exists>secrets' e' t.
      fst (load_vault os_env0 ''12345'' (set_secret os_env0 ''github'' ''v1'' ''12345'' vault1))
        = Some secrets' \<and>
      map_of secrets' ''github'' = Some e' \<and> current e' = Some ''v1'' \<and>
      archive e' = Some [\<lparr>item_value = ''token'', item_timestamp = t\<rparr>])"
proof -
  have h: "''A'' \<noteq> []" "''v1'' \<noteq> []" "''v2'' \<noteq> []" "''github'' \<noteq> []" by simp_all
  have l: "fst (load_vault os_env0 ''12345'' vault1)
             = Some [(''github'', new_entry ''token'' ''2024-12-31T08:00:00'')]"
    by (simp add: fst_load_vault vault1_files)
  have c: "current (new_entry ''token'' ''2024-12-31T08:00:00'') = Some ''token''"
     "archive (new_entry ''token'' ''2024-12-31T08:00:00'') = Some []"
    by (simp_all add: new_entry_def)
  from set_secret_archives_previous [OF h(1) h(2) h(3), of os_env0 "''12345''" os_env0 os_env0 vault1]
  have a: "map_sum id fst (get_secret os_env0 ''A'' ''12345'' False 0
      (set_secret os_env0 ''A'' ''v2'' ''12345'' (set_secret os_env0 ''A'' ''v1'' ''12345'' vault1)))
       = Inr (Some ''v2'')"
    and b: "map_sum id fst (get_secret os_env0 ''A'' ''12345'' True 0
      (set_secret os_env0 ''A'' ''v2'' ''12345'' (set_secret os_env0 ''A'' ''v1'' ''12345'' vault1)))
       = Inr (Some ''v1'')"
    by blast+
  from set_secret_archives_previous [OF h(4) h(2) h(3), of os_env0 "''12345''" os_env0 os_env0 vault1]
    l c
  have g: "\<exists>secrets' e' t.
      fst (load_vault os_env0 ''12345'' (set_secret os_env0 ''github'' ''v1'' ''12345'' vault1))
        = Some secrets' \<and>
      map_of secrets' ''github'' = Some e' \<and> current e' = Some ''v1'' \<and>
      archive e' = Some [\<lparr>item_value = ''token'', item_timestamp = t\<rparr>]"
    by fastforce
  from a b g l c h show ?thesis by simp
qed

text \<open>
  C5.  The range test of \<open>restore_secret\<close> is \<open>len(archive) <= version\<close> only.  On a secret
  that was set once, so that its archive is empty, version \<open>-1\<close> passes the test and
  \<open>archive.pop(-1)\<close> raises \<open>IndexError\<close>: the call does not return \<open>False\<close>.
\<close>

theorem restore_secret_negative_version_raises:
  "restore_secret os_env0 ''A'' ''12345'' (- 1)
     (set_secret os_env0 ''A'' ''v1'' ''12345'' vault0) = Inl IndexError"
  by (simp add: restore_secret_def split_beta fst_load_vault files_set_secret or_empty_def
      vault0_def update_conv' new_entry_def list_pop_def)

text \<open>
  What \<open>restore_secret\<close> does for the other versions: from 0 up to the length of the
  archive it takes that archive entry out, puts the current value in front of the rest
  and makes the entry's value current; from the length on, and for a name that is not in
  the vault, it returns \<open>False\<close> and leaves the vault file as it was.
\<close>

lemma restore_secret_in_range:
  assumes "fst (load_vault E pin w) = Some secrets" and "map_of secrets name = Some e"
    and "archive e = Some a" and "current e = Some c"
    and "0 \<le> version" and "version < int (length a)"
  shows "\<exists>w'. restore_secret E name pin version w = Inr (True, w') \<and>
           fst (load_vault E' pin w') =
             Some (AList.update name
                    (e\<lparr>archive := Some (\<lparr>item_value = c,
                                          item_timestamp =
                                            (case last_update e of None \<Rightarrow> now_isoformat E
                                             | Some t \<Rightarrow> t)\<rparr>
                                        # (take (nat version) a @ drop (Suc (nat version)) a)),
                       current := Some (item_value (a ! nat version)),
                       last_update := Some (now_isoformat E)\<rparr>)
                    secrets)"
  using assms
  by (simp add: restore_secret_def split_beta or_empty_def list_pop_def Let_def
      fst_load_vault files_save_vault files_load_vault vault_logger_def)

lemma restore_secret_too_large:
  assumes "fst (load_vault E pin w) = Some secrets"
    and "map_of secrets name = None \<or>
         (\<exists>e a. map_of secrets name = Some e \<and> archive e = Some a \<and> int (length a) \<le> version)"
  shows "\<exists>w'. restore_secret E name pin version w = Inr (False, w') \<and> vault_file w' = vault_file w"
  using assms
  by (auto simp add: restore_secret_def split_beta or_empty_def Let_def restore_failed_def
      files_load_vault vault_logger_def)

section \<open>Approval gate\<close>

lemma logger_frame [simp]:
  "files (logger pii E t d w) = files w" "executed (logger pii E t d w) = executed w"
  "modes (logger pii E t d w) = modes w" "requested (logger pii E t d w) = requested w"
  by (simp_all add: logger_def)









section \<open>Propose, then deny\<close>












end
